theory Spec2Isabelle
  imports Complex_Main
begin

section \<open>The desktop clock: a model of \<^verbatim>\<open>desktop_clock.py\<close>\<close>

text \<open>
  The program is one class, \<^verbatim>\<open>DesktopClock\<close>, driven by the event loop of the GUI toolkit.
  The model keeps the fields of the object and of the toolkit window it owns in one record,
  passes that record through every method, and takes everything the host decides (clock
  readings, rendered sizes, which platform calls raise) as explicit inputs.
\<close>

subsection \<open>Python integers, number formatting\<close>

text \<open>
  \<^verbatim>\<open>int(a / b)\<close>: true division followed by truncation towards zero. The quotient is a
  float in the source; for \<open>\<bar>a\<bar> < 2 ^ 53\<close> and the two divisors of this program
  (\<open>1000\<close> and \<open>1000000\<close>) the correctly rounded float quotient has the same integer part as
  the exact quotient, which is what this definition computes.
\<close>

definition int_truediv :: "int \<Rightarrow> int \<Rightarrow> int" where
  "int_truediv a b = sgn a * sgn b * (\<bar>a\<bar> div \<bar>b\<bar>)"

definition digit_char :: "nat \<Rightarrow> char" where
  "digit_char d = ''0123456789'' ! d"

text \<open>The decimal digits of a natural number, most significant first.\<close>

fun digits_of :: "nat \<Rightarrow> string" where
  "digits_of n = (if n < 10 then [digit_char n]
                  else digits_of (n div 10) @ [digit_char (n mod 10)])"

declare digits_of.simps [simp del]

text \<open>
  The format specification \<^verbatim>\<open>0wd\<close> (as in \<^verbatim>\<open>f"{n:03d}"\<close>, and the two-digit fields of
  \<^verbatim>\<open>strftime\<close>): the sign first, then zeros up to the width, then the digits.
\<close>

definition format_0d :: "nat \<Rightarrow> int \<Rightarrow> string" where
  "format_0d w n =
     (let ds = digits_of (nat \<bar>n\<bar>)
      in if n < 0 then CHR ''-'' # replicate (w - 1 - length ds) (CHR ''0'') @ ds
         else replicate (w - length ds) (CHR ''0'') @ ds)"

text \<open>Reading a string of decimal digits back, for stating what a field displays.\<close>

definition digit_val :: "char \<Rightarrow> nat" where
  "digit_val c = of_char c - 48"

definition is_digit :: "char \<Rightarrow> bool" where
  "is_digit c = (48 \<le> (of_char c :: nat) \<and> (of_char c :: nat) \<le> 57)"

definition decimal_value :: "string \<Rightarrow> nat" where
  "decimal_value cs = foldl (\<lambda>acc c. 10 * acc + digit_val c) 0 cs"

subsection \<open>Host values\<close>

text \<open>A reading of \<^verbatim>\<open>datetime.now()\<close>: the fields the program formats.\<close>

record datetime =
  hour :: int
  minute :: int
  second :: int
  microsecond :: int

datatype exn = KeyboardInterrupt | Exception string

datatype widget = Root | Hhmmss | Dot | Mmm

text \<open>The platform calls made at startup whose failure the program tolerates.\<close>

datatype call = AttributesTopmost | OverrideRedirect | FontNew string int | MacosSetLevel

text \<open>
  What the host answers during \<^verbatim>\<open>__init__\<close>. A call that may raise is given as an
  optional exception message (\<open>None\<close>: the call succeeds) or, where the message is
  discarded, as a flag. Rendered sizes and the screen width are what the toolkit reports;
  they are never negative.
\<close>

record host =
  tk_raises :: "string option"
  topmost_raises :: bool
  overrideredirect_raises :: bool
  font_raises :: "string \<Rightarrow> int \<Rightarrow> string option"
  sys_platform :: string
  cocoa_raises :: "string option"
  hhmmss_reqwidth :: nat
  dot_reqwidth :: nat
  mmm_reqwidth :: nat
  hhmmss_reqheight :: nat
  mmm_reqheight :: nat
  screenwidth :: nat
  perf_counter_ns :: int

subsection \<open>The widget\<close>

record font =
  family :: string
  size :: int
  bold :: bool

record clock =
  root_exists :: bool
  root_x :: int
  root_y :: int
  root_w :: int
  root_h :: int
  topmost :: bool
  undecorated :: bool
  floating_level :: bool
  time_font :: font
  ms_font :: font
  hhmmss_text :: string
  dot_text :: string
  mmm_text :: string
  drag_data_x :: int
  drag_data_y :: int
  timers :: "int list"
  stdout :: "string list"
  calls :: "call list"
  reported :: "exn list"

definition UPDATE_INTERVAL_MS :: int where
  "UPDATE_INTERVAL_MS = 16"

subsection \<open>Tick scheduling\<close>

definition interval_ns :: int where
  "interval_ns = UPDATE_INTERVAL_MS * 1000000"

definition next_tick_ns :: "int \<Rightarrow> int" where
  "next_tick_ns now_ns = ((now_ns div interval_ns) + 1) * interval_ns"

definition delay_ms :: "int \<Rightarrow> int" where
  "delay_ms now_ns = max 1 (int_truediv (next_tick_ns now_ns - now_ns) 1000000)"

text \<open>
  \<^verbatim>\<open>_schedule_next_tick\<close>: \<^verbatim>\<open>root.after(delay_ms, self._update_time)\<close> adds one pending
  timer; \<open>timers\<close> holds the delays of the timers not yet fired, oldest first.
\<close>

definition schedule_next_tick :: "int \<Rightarrow> clock \<Rightarrow> clock" where
  "schedule_next_tick now_ns s = s\<lparr>timers := timers s @ [delay_ms now_ns]\<rparr>"

text \<open>
  \<^verbatim>\<open>_update_time\<close>, given the wall-clock reading and the monotonic reading taken by the
  scheduling step it ends with.
\<close>

definition strftime_HMS :: "datetime \<Rightarrow> string" where
  "strftime_HMS now =
     format_0d 2 (hour now) @ '':'' @ format_0d 2 (minute now) @ '':'' @ format_0d 2 (second now)"

definition update_time :: "datetime \<Rightarrow> int \<Rightarrow> clock \<Rightarrow> clock" where
  "update_time now now_ns s =
     schedule_next_tick now_ns
       (s\<lparr>hhmmss_text := strftime_HMS now,
          mmm_text := format_0d 3 (int_truediv (microsecond now) 1000)\<rparr>)"

subsection \<open>Dragging and dismissal\<close>

text \<open>
  \<^verbatim>\<open>root.geometry(f"+{x}+{y}")\<close> moves the window and leaves its size; the toolkit reads
  \<^verbatim>\<open>+-5\<close> as the offset \<open>-5\<close>, so every integer position is accepted.
\<close>

definition geometry_pos :: "int \<Rightarrow> int \<Rightarrow> clock \<Rightarrow> clock" where
  "geometry_pos x y s = s\<lparr>root_x := x, root_y := y\<rparr>"

definition geometry_size_pos :: "int \<Rightarrow> int \<Rightarrow> int \<Rightarrow> int \<Rightarrow> clock \<Rightarrow> clock" where
  "geometry_size_pos w h x y s = s\<lparr>root_x := x, root_y := y, root_w := w, root_h := h\<rparr>"

definition on_start_move :: "int \<Rightarrow> int \<Rightarrow> clock \<Rightarrow> clock" where
  "on_start_move x_root y_root s =
     s\<lparr>drag_data_x := x_root - root_x s, drag_data_y := y_root - root_y s\<rparr>"

definition on_move :: "int \<Rightarrow> int \<Rightarrow> clock \<Rightarrow> clock" where
  "on_move x_root y_root s =
     (let x = x_root - drag_data_x s; y = y_root - drag_data_y s
      in geometry_pos x y s)"

definition destroy :: "clock \<Rightarrow> clock" where
  "destroy s = s\<lparr>root_exists := False\<rparr>"

subsection \<open>The event loop\<close>

text \<open>
  What the toolkit delivers while \<^verbatim>\<open>mainloop\<close> runs: the three bound mouse events, each on
  one of the four widgets they are bound on and carrying the pointer's screen coordinates; a
  timer firing, with the two clock readings its callback will take; an exception raised
  out of the loop itself (a SIGINT that arrives while the loop waits comes out of
  \<^verbatim>\<open>mainloop\<close> as \<open>KeyboardInterrupt\<close>); and an exception raised inside the callback of
  an event, after the given number of the callback's effects (a SIGINT that arrives while
  the callback runs is raised there, as \<open>KeyboardInterrupt\<close>).
\<close>

datatype event =
    ButtonPress1 widget int int
  | B1Motion widget int int
  | Button3 widget
  | TimerFired datetime int
  | LoopRaise exn
  | RaisedIn event nat exn

text \<open>
  The statements of each callback that change the widget, in the order of the source. A
  callback cut short by an exception has run a prefix of them.
\<close>

fun effects :: "event \<Rightarrow> (clock \<Rightarrow> clock) list" where
  "effects (ButtonPress1 w x_root y_root) =
     [\<lambda>s. s\<lparr>drag_data_x := x_root - root_x s\<rparr>,
      \<lambda>s. s\<lparr>drag_data_y := y_root - root_y s\<rparr>]"
| "effects (B1Motion w x_root y_root) = [on_move x_root y_root]"
| "effects (Button3 w) = [destroy]"
| "effects (TimerFired now now_ns) =
     [\<lambda>s. s\<lparr>hhmmss_text := strftime_HMS now\<rparr>,
      \<lambda>s. s\<lparr>mmm_text := format_0d 3 (int_truediv (microsecond now) 1000)\<rparr>,
      schedule_next_tick now_ns]"
| "effects (LoopRaise x) = []"
| "effects (RaisedIn e k x) = []"

definition run_effects :: "nat \<Rightarrow> event \<Rightarrow> clock \<Rightarrow> clock" where
  "run_effects k e s = fold (\<lambda>f t. f t) (take k (effects e)) s"

text \<open>
  The toolkit calls every bound and every timer callback through a wrapper that catches
  whatever the callback raises (a \<open>KeyboardInterrupt\<close> included), reports it on the error
  stream and lets the loop go on.
\<close>

definition report_exception :: "exn \<Rightarrow> clock \<Rightarrow> clock" where
  "report_exception x s = s\<lparr>reported := reported s @ [x]\<rparr>"

fun dispatch :: "event \<Rightarrow> clock \<Rightarrow> clock" where
  "dispatch (ButtonPress1 w x_root y_root) s = on_start_move x_root y_root s"
| "dispatch (B1Motion w x_root y_root) s = on_move x_root y_root s"
| "dispatch (Button3 w) s = destroy s"
| "dispatch (TimerFired now now_ns) s =
     (case timers s of [] \<Rightarrow> s | d # ds \<Rightarrow> update_time now now_ns (s\<lparr>timers := ds\<rparr>))"
| "dispatch (LoopRaise e) s = s"
| "dispatch (RaisedIn (TimerFired now now_ns) k x) s =
     (case timers s of
        [] \<Rightarrow> s
      | d # ds \<Rightarrow>
          report_exception x (run_effects k (TimerFired now now_ns) (s\<lparr>timers := ds\<rparr>)))"
| "dispatch (RaisedIn (LoopRaise y) k x) s = s"
| "dispatch (RaisedIn (RaisedIn e j y) k x) s = s"
| "dispatch (RaisedIn e k x) s = report_exception x (run_effects k e s)"

text \<open>
  A run of the loop over the events delivered so far: it has returned (the window was
  destroyed), it has raised, or it is still waiting for the next event.
\<close>

datatype outcome = Returned clock | Raised exn clock | Waiting clock

fun mainloop :: "event list \<Rightarrow> clock \<Rightarrow> outcome" where
  "mainloop [] s = (if root_exists s then Waiting s else Returned s)"
| "mainloop (e # es) s =
     (if \<not> root_exists s then Returned s
      else case e of LoopRaise x \<Rightarrow> Raised x s | _ \<Rightarrow> mainloop es (dispatch e s))"

text \<open>\<^verbatim>\<open>run\<close>: the loop inside \<^verbatim>\<open>try ... except KeyboardInterrupt: pass\<close>.\<close>

definition run :: "event list \<Rightarrow> clock \<Rightarrow> outcome" where
  "run es s =
     (case mainloop es s of
        Raised KeyboardInterrupt s' \<Rightarrow> Returned s'
      | r \<Rightarrow> r)"

fun outcome_state :: "outcome \<Rightarrow> clock" where
  "outcome_state (Returned s) = s"
| "outcome_state (Raised e s) = s"
| "outcome_state (Waiting s) = s"

text \<open>
  The exit status of the script once \<^verbatim>\<open>run\<close> is over: 0 when it returned, 1 when an
  exception left it unhandled, none while the loop is still running.
\<close>

fun exit_status :: "outcome \<Rightarrow> int option" where
  "exit_status (Returned s) = Some 0"
| "exit_status (Raised e s) = Some 1"
| "exit_status (Waiting s) = None"

subsection \<open>Initialisation\<close>

text \<open>The object right after \<^verbatim>\<open>tk.Tk()\<close>: an unmapped window reports \<open>1x1+0+0\<close>.\<close>

definition new_root :: clock where
  "new_root =
     \<lparr>root_exists = True, root_x = 0, root_y = 0, root_w = 1, root_h = 1,
      topmost = False, undecorated = False, floating_level = False,
      time_font = \<lparr>family = [], size = 0, bold = False\<rparr>,
      ms_font = \<lparr>family = [], size = 0, bold = False\<rparr>,
      hhmmss_text = [], dot_text = [], mmm_text = [],
      drag_data_x = 0, drag_data_y = 0, timers = [], stdout = [], calls = [],
      reported = []\<rparr>"

definition set_topmost :: "host \<Rightarrow> clock \<Rightarrow> clock" where
  "set_topmost h s =
     (let s' = s\<lparr>calls := calls s @ [AttributesTopmost]\<rparr>
      in if topmost_raises h then s' else s'\<lparr>topmost := True\<rparr>)"

definition set_overrideredirect :: "host \<Rightarrow> clock \<Rightarrow> clock" where
  "set_overrideredirect h s =
     (let s' = s\<lparr>calls := calls s @ [OverrideRedirect]\<rparr>
      in if overrideredirect_raises h then s' else s'\<lparr>undecorated := True\<rparr>)"

text \<open>
  The two \<^verbatim>\<open>tkfont.Font\<close> calls of one branch, in order; the second is not reached when
  the first raises. The result is the state with both fonts set, or the message of the
  exception raised together with the state at that point.
\<close>

definition load_fonts :: "host \<Rightarrow> string \<Rightarrow> clock \<Rightarrow> (string \<times> clock) + clock" where
  "load_fonts h fam s =
     (let s1 = s\<lparr>calls := calls s @ [FontNew fam 28]\<rparr>
      in case font_raises h fam 28 of
           Some e \<Rightarrow> Inl (e, s1)
         | None \<Rightarrow>
             (let s2 = s1\<lparr>time_font := \<lparr>family = fam, size = 28, bold = True\<rparr>,
                          calls := calls s1 @ [FontNew fam 16]\<rparr>
              in case font_raises h fam 16 of
                   Some e \<Rightarrow> Inl (e, s2)
                 | None \<Rightarrow> Inr (s2\<lparr>ms_font := \<lparr>family = fam, size = 16, bold = False\<rparr>\<rparr>)))"

text \<open>
  The font settings: the preferred family inside \<^verbatim>\<open>try\<close>, the fallback family in the
  \<^verbatim>\<open>except Exception\<close> branch, where an exception is no longer caught.
\<close>

definition font_settings :: "host \<Rightarrow> clock \<Rightarrow> exn + clock" where
  "font_settings h s =
     (case load_fonts h ''JetBrains Mono'' s of
        Inr s' \<Rightarrow> Inr s'
      | Inl (e, s1) \<Rightarrow>
          (case load_fonts h ''Courier'' s1 of
             Inr s' \<Rightarrow> Inr s'
           | Inl (e', s2) \<Rightarrow> Inl (Exception e')))"

definition time_labels :: "clock \<Rightarrow> clock" where
  "time_labels s = s\<lparr>hhmmss_text := ''00:00:00'', dot_text := ''.'', mmm_text := ''000''\<rparr>"

definition window_size_and_position :: "host \<Rightarrow> clock \<Rightarrow> clock" where
  "window_size_and_position hst s =
     (let w = int (hhmmss_reqwidth hst) + int (dot_reqwidth hst) + int (mmm_reqwidth hst) + 30;
          h = max (int (hhmmss_reqheight hst)) (int (mmm_reqheight hst)) + 20;
          sw = int (screenwidth hst)
      in geometry_size_pos w h (sw - w - 40) 40 s)"

text \<open>
  \<^verbatim>\<open>_make_macos_floating\<close>: the whole \<^verbatim>\<open>try\<close> block (import, window lookup,
  \<^verbatim>\<open>setLevel_\<close>) is one attempt; either message is printed.
\<close>

definition make_macos_floating :: "host \<Rightarrow> clock \<Rightarrow> clock" where
  "make_macos_floating h s =
     (let s' = s\<lparr>calls := calls s @ [MacosSetLevel]\<rparr>
      in case cocoa_raises h of
           None \<Rightarrow>
             s'\<lparr>floating_level := True,
                stdout := stdout s' @
                  [''macOS: Clock window elevated to floating level (NSFloatingWindowLevel)'']\<rparr>
         | Some e \<Rightarrow>
             s'\<lparr>stdout := stdout s' @ [''macOS: Failed to set floating level: '' @ e]\<rparr>)"

text \<open>
  What \<^verbatim>\<open>__init__\<close> does once the fonts are set: the labels, the drag data, the
  geometry, the macOS call on that platform only, and the first tick.
\<close>

definition init_widgets :: "host \<Rightarrow> clock \<Rightarrow> clock" where
  "init_widgets h s =
     (let s1 = time_labels s;
          s2 = s1\<lparr>drag_data_x := 0, drag_data_y := 0\<rparr>;
          s3 = window_size_and_position h s2;
          s4 = (if sys_platform h = ''darwin'' then make_macos_floating h s3 else s3)
      in schedule_next_tick (perf_counter_ns h) s4)"

definition DesktopClock_init :: "host \<Rightarrow> exn + clock" where
  "DesktopClock_init h =
     (case tk_raises h of
        Some e \<Rightarrow> Inl (Exception e)
      | None \<Rightarrow>
          (case font_settings h (set_overrideredirect h (set_topmost h new_root)) of
             Inl e \<Rightarrow> Inl e
           | Inr s \<Rightarrow> Inr (init_widgets h s)))"

subsection \<open>The specification's words, for comparison\<close>

text \<open>
  The specification's formula for the next tick, \<open>ceil(now / interval) * interval\<close>, taken
  literally over the reals. It is compared with \<open>next_tick_ns\<close>, which is the code.
\<close>

definition spec_next_tick_ns :: "int \<Rightarrow> int" where
  "spec_next_tick_ns now_ns = \<lceil>real_of_int now_ns / real_of_int interval_ns\<rceil> * interval_ns"

text \<open>A stretch of events in which no new press of the primary button occurs.\<close>

fun is_press :: "event \<Rightarrow> bool" where
  "is_press (ButtonPress1 w x y) = True"
| "is_press (RaisedIn e k x) = is_press e"
| "is_press e = False"

fun no_press :: "event list \<Rightarrow> bool" where
  "no_press [] = True"
| "no_press (e # es) = (\<not> is_press e \<and> no_press es)"



subsection \<open>Example inputs\<close>

text \<open>
  A macOS host on which every optional capability fails: the always-on-top attribute is
  rejected, the preferred font family cannot be created, and the native call raises.
\<close>

definition example_host :: host where
  "example_host =
     \<lparr>tk_raises = None, topmost_raises = True, overrideredirect_raises = False,
      font_raises = (\<lambda>fam sz. if fam = ''JetBrains Mono'' then Some ''unknown family'' else None),
      sys_platform = ''darwin'', cocoa_raises = Some ''No module named Cocoa'',
      hhmmss_reqwidth = 140, dot_reqwidth = 18, mmm_reqwidth = 42,
      hhmmss_reqheight = 44, mmm_reqheight = 26, screenwidth = 1920,
      perf_counter_ns = 1000000007\<rparr>"


definition example_reading :: datetime where
  "example_reading = \<lparr>hour = 9, minute = 5, second = 59, microsecond = 45999\<rparr>"

text \<open>A window at \<open>(100, 50)\<close> with one tick pending.\<close>

definition example_clock :: clock where
  "example_clock = schedule_next_tick 1000000007 (geometry_size_pos 230 64 100 50 new_root)"

section \<open>Tick alignment\<close>

lemma interval_ns_eq: "interval_ns = 16000000"
  by (simp add: interval_ns_def UPDATE_INTERVAL_MS_def)

text \<open>
  C1. For every non-negative monotonic timestamp \<open>t\<close> in nanoseconds and the fixed interval
  of 16 ms in nanoseconds, the next tick of the scheduling step is a multiple of the
  interval, lies strictly after \<open>t\<close>, and is at most one interval after \<open>t\<close>.
\<close>

theorem tick_alignment:
  assumes "0 \<le> t"
  shows "next_tick_ns t mod interval_ns = 0 \<and> next_tick_ns t > t
         \<and> next_tick_ns t - t \<le> interval_ns"
proof -
  have pos: "(0::int) < 16000000" by simp
  have m: "t = (t div 16000000) * 16000000 + t mod 16000000" by simp
  have lo: "0 \<le> t mod 16000000" using pos by simp
  have hi: "t mod 16000000 < 16000000" using pos by simp
  have n: "next_tick_ns t = (t div 16000000) * 16000000 + 16000000"
    by (simp add: next_tick_ns_def interval_ns_eq algebra_simps)
  have "next_tick_ns t mod 16000000 = 0"
    by (simp add: next_tick_ns_def interval_ns_eq)
  moreover have "next_tick_ns t > t" using n m hi by linarith
  moreover have "next_tick_ns t - t \<le> 16000000" using n m lo by linarith
  ultimately show ?thesis by (simp add: interval_ns_eq)
qed

theorem tick_alignment_witness:
  "(0::int) \<le> 1000000007 \<and> next_tick_ns 1000000007 = 1008000000
   \<and> next_tick_ns 1000000007 mod interval_ns = 0 \<and> next_tick_ns 1000000007 > 1000000007
   \<and> next_tick_ns 1000000007 - 1000000007 \<le> interval_ns"
  using tick_alignment [of 1000000007]
  by (simp add: next_tick_ns_def interval_ns_eq)

section \<open>The rounding of the next tick\<close>

lemma spec_next_tick_ns_div:
  "spec_next_tick_ns now = (if now mod interval_ns = 0 then now div interval_ns
                            else now div interval_ns + 1) * interval_ns"
proof -
  have c: "\<lceil>real_of_int now / real_of_int interval_ns\<rceil> = - (- now div interval_ns)"
    by (rule ceiling_divide_eq_div)
  have nz: "interval_ns \<noteq> 0" by (simp add: interval_ns_eq)
  show ?thesis
    unfolding spec_next_tick_ns_def c by (simp add: zdiv_zminus1_eq_if [OF nz] algebra_simps)
qed

lemma int_truediv_pos: "0 \<le> a \<Longrightarrow> 0 < b \<Longrightarrow> int_truediv a b = a div b"
  by (cases "a = 0") (simp_all add: int_truediv_def)

lemma next_tick_gt: "now < next_tick_ns now"
proof -
  have "now mod 16000000 < 16000000" by simp
  moreover have "now = (now div 16000000) * 16000000 + now mod 16000000" by simp
  moreover have "next_tick_ns now = (now div 16000000) * 16000000 + 16000000"
    by (simp add: next_tick_ns_def interval_ns_eq algebra_simps)
  ultimately show ?thesis by linarith
qed

text \<open>
  C2, as the specification states it, fails: at a timestamp that is itself a multiple of
  the interval, \<open>ceil(now / interval) * interval\<close> is \<open>now\<close>, while the code schedules one
  whole interval later.
\<close>

theorem next_tick_ceil_counterexample:
  "next_tick_ns 32000000 = 48000000 \<and> spec_next_tick_ns 32000000 = 32000000
   \<and> next_tick_ns 32000000 \<noteq> spec_next_tick_ns 32000000"
  by (simp add: next_tick_ns_def spec_next_tick_ns_def interval_ns_eq)

text \<open>
  C2, amended. For every timestamp \<open>now\<close> the scheduling step computes
  \<open>next_tick = (floor(now / interval) + 1) * interval\<close>: this is
  \<open>ceil(now / interval) * interval\<close> when \<open>now\<close> is not a multiple of the interval and one
  interval more when it is. The delay handed to the timer is the difference
  \<open>next_tick - now\<close> in whole milliseconds, raised to 1 when that is 0.
\<close>

theorem next_tick_rounding:
  "next_tick_ns now = (\<lfloor>real_of_int now / real_of_int interval_ns\<rfloor> + 1) * interval_ns
   \<and> next_tick_ns now = (if now mod interval_ns = 0 then spec_next_tick_ns now + interval_ns
                          else spec_next_tick_ns now)
   \<and> delay_ms now = max 1 ((next_tick_ns now - now) div 1000000)
   \<and> timers (schedule_next_tick now s) = timers s @ [max 1 ((next_tick_ns now - now) div 1000000)]"
proof -
  have f: "\<lfloor>real_of_int now / real_of_int interval_ns\<rfloor> = now div interval_ns"
    by (rule floor_divide_of_int_eq)
  have a: "next_tick_ns now = (if now mod interval_ns = 0 then spec_next_tick_ns now + interval_ns
                               else spec_next_tick_ns now)"
    by (simp add: spec_next_tick_ns_div next_tick_ns_def algebra_simps)
  have "0 \<le> next_tick_ns now - now" using next_tick_gt [of now] by simp
  then have b: "delay_ms now = max 1 ((next_tick_ns now - now) div 1000000)"
    by (simp add: delay_ms_def int_truediv_pos)
  show ?thesis
    unfolding f using a b by (simp add: schedule_next_tick_def next_tick_ns_def)
qed

theorem next_tick_rounding_witness:
  "next_tick_ns 47500000 = 48000000 \<and> spec_next_tick_ns 47500000 = 48000000
   \<and> delay_ms 47500000 = 1
   \<and> timers (schedule_next_tick 47500000 new_root) = [1]"
  using next_tick_rounding [of 47500000 new_root]
  by (simp add: next_tick_ns_def interval_ns_eq new_root_def)

section \<open>The millisecond field\<close>

lemma digit_val_digit_char: "d < 10 \<Longrightarrow> digit_val (digit_char d) = d"
proof -
  assume "d < 10"
  then have "d \<in> {0,1,2,3,4,5,6,7,8,9}" by auto
  then show ?thesis by (auto simp: digit_val_def digit_char_def)
qed

lemma is_digit_digit_char: "d < 10 \<Longrightarrow> is_digit (digit_char d)"
proof -
  assume "d < 10"
  then have "d \<in> {0,1,2,3,4,5,6,7,8,9}" by auto
  then show ?thesis by (auto simp: is_digit_def digit_char_def)
qed

lemma decimal_value_snoc: "decimal_value (cs @ [c]) = 10 * decimal_value cs + digit_val c"
  by (simp add: decimal_value_def)

lemma decimal_value_digits_of: "decimal_value (digits_of n) = n"
proof (induction n rule: digits_of.induct)
  case (1 n)
  show ?case
  proof (cases "n < 10")
    case True
    then show ?thesis
      by (subst digits_of.simps) (simp add: decimal_value_def digit_val_digit_char)
  next
    case False
    with 1 show ?thesis
      by (subst digits_of.simps) (simp add: decimal_value_snoc digit_val_digit_char)
  qed
qed

lemma digits_of_all_digits: "list_all is_digit (digits_of n)"
proof (induction n rule: digits_of.induct)
  case (1 n)
  show ?case
  proof (cases "n < 10")
    case True
    then show ?thesis by (subst digits_of.simps) (simp add: is_digit_digit_char)
  next
    case False
    with 1 show ?thesis by (subst digits_of.simps) (simp add: is_digit_digit_char)
  qed
qed

lemma length_digits_of_le3: "n < 1000 \<Longrightarrow> length (digits_of n) \<le> 3"
proof -
  assume n: "n < 1000"
  have one: "\<And>k. k < 10 \<Longrightarrow> length (digits_of k) = 1"
    by (subst digits_of.simps) simp
  have two: "\<And>k. k < 100 \<Longrightarrow> length (digits_of k) \<le> 2"
  proof -
    fix k :: nat assume "k < 100"
    then show "length (digits_of k) \<le> 2"
      by (subst digits_of.simps) (simp add: one)
  qed
  have "n div 10 < 100" using n by simp
  then show ?thesis
    using two [of "n div 10"] by (subst digits_of.simps) (simp add: one)
qed

lemma decimal_value_zeros: "decimal_value (replicate k (CHR ''0'') @ cs) = decimal_value cs"
proof (induction k)
  case 0
  show ?case by simp
next
  case (Suc k)
  have "decimal_value (CHR ''0'' # xs) = decimal_value xs" for xs
    by (simp add: decimal_value_def digit_val_def)
  with Suc show ?case by simp
qed

lemma is_digit_zero: "is_digit (CHR ''0'')"
  by (simp add: is_digit_def)

lemma mmm_text_update_time:
  "mmm_text (update_time now now_ns s) = format_0d 3 (int_truediv (microsecond now) 1000)"
  by (simp add: update_time_def schedule_next_tick_def)

text \<open>
  C3. For every sub-second value of 0 to 999999 microseconds, the millisecond field a tick
  displays is exactly three decimal digits whose value is the microseconds divided by 1000,
  rounded down; 999500 microseconds show as \<open>999\<close> and 0 microseconds as \<open>000\<close>.
\<close>

theorem millisecond_field:
  assumes "0 \<le> microsecond now" and "microsecond now \<le> 999999"
  shows "length (mmm_text (update_time now now_ns s)) = 3
       \<and> list_all is_digit (mmm_text (update_time now now_ns s))
       \<and> int (decimal_value (mmm_text (update_time now now_ns s))) = microsecond now div 1000
       \<and> mmm_text (update_time (now\<lparr>microsecond := 999500\<rparr>) now_ns s) = ''999''
       \<and> mmm_text (update_time (now\<lparr>microsecond := 0\<rparr>) now_ns s) = ''000''"
proof -
  define q where "q = nat (microsecond now div 1000)"
  have q: "q < 1000" using assms by (simp add: q_def)
  have t: "int_truediv (microsecond now) 1000 = int q"
    using assms by (simp add: int_truediv_pos q_def)
  have m: "mmm_text (update_time now now_ns s)
           = replicate (3 - length (digits_of q)) (CHR ''0'') @ digits_of q"
    by (simp add: mmm_text_update_time format_0d_def t Let_def)
  have "length (mmm_text (update_time now now_ns s)) = 3"
    using length_digits_of_le3 [OF q] by (simp add: m)
  moreover have "list_all is_digit (mmm_text (update_time now now_ns s))"
    using digits_of_all_digits [of q] by (auto simp: m is_digit_zero list_all_iff)
  moreover have "int (decimal_value (mmm_text (update_time now now_ns s))) = microsecond now div 1000"
    using assms by (simp add: m decimal_value_zeros decimal_value_digits_of q_def)
  moreover have "mmm_text (update_time (now\<lparr>microsecond := 999500\<rparr>) now_ns s) = ''999''"
    by (simp add: mmm_text_update_time format_0d_def int_truediv_def digits_of.simps
          digit_char_def)
  moreover have "mmm_text (update_time (now\<lparr>microsecond := 0\<rparr>) now_ns s) = ''000''"
    by (simp add: mmm_text_update_time format_0d_def int_truediv_def digits_of.simps
          digit_char_def numeral_2_eq_2)
  ultimately show ?thesis by simp
qed

theorem millisecond_field_witness:
  "0 \<le> microsecond example_reading \<and> microsecond example_reading \<le> 999999
   \<and> mmm_text (update_time example_reading 0 new_root) = ''045''
   \<and> length (mmm_text (update_time example_reading 0 new_root)) = 3
   \<and> decimal_value (mmm_text (update_time example_reading 0 new_root)) = 45"
  using millisecond_field [of example_reading 0 new_root]
  by (simp add: example_reading_def mmm_text_update_time format_0d_def int_truediv_def
        digits_of.simps digit_char_def numeral_2_eq_2)

section \<open>Callbacks cut short\<close>

text \<open>Run to the end, the effects of a callback are the callback.\<close>

lemma effects_complete:
  "run_effects (length (effects e)) e s =
     (case e of
        ButtonPress1 w x y \<Rightarrow> on_start_move x y s
      | B1Motion w x y \<Rightarrow> on_move x y s
      | Button3 w \<Rightarrow> destroy s
      | TimerFired now now_ns \<Rightarrow> update_time now now_ns s
      | LoopRaise x \<Rightarrow> s
      | RaisedIn e' k x \<Rightarrow> s)"
  by (cases e)
     (simp_all add: run_effects_def on_start_move_def update_time_def schedule_next_tick_def)

text \<open>What every effect of a callback leaves alone, a prefix of them leaves alone.\<close>

lemma fold_frame:
  assumes "\<And>f t. f \<in> set fs \<Longrightarrow> g (f t) = g t"
  shows "g (fold (\<lambda>f t. f t) fs s) = g s"
  using assms by (induction fs arbitrary: s) simp_all

lemma run_effects_frame:
  assumes "\<And>f t. f \<in> set (effects e) \<Longrightarrow> g (f t) = g t"
  shows "g (run_effects k e s) = g s"
  unfolding run_effects_def
  by (rule fold_frame) (auto dest: in_set_takeD intro: assms)

lemma dispatch_raised_frame:
  assumes "\<And>f t. f \<in> set (effects e) \<Longrightarrow> g (f t) = g t"
    and "\<And>x t. g (report_exception x t) = g t"
    and "\<And>ds t. g (t\<lparr>timers := ds\<rparr>) = g t"
  shows "g (dispatch (RaisedIn e k x) s) = g s"
proof -
  have r: "\<And>t. g (run_effects k e t) = g t"
    by (rule run_effects_frame) (rule assms(1))
  show ?thesis
    using r assms(2,3) by (cases e) (simp_all split: list.splits)
qed

section \<open>Dragging\<close>

lemma dispatch_drag_data:
  "\<not> is_press e \<Longrightarrow>
   drag_data_x (dispatch e s) = drag_data_x s \<and> drag_data_y (dispatch e s) = drag_data_y s"
proof (cases e)
  case (RaisedIn e' k x)
  assume "\<not> is_press e"
  with RaisedIn have np: "\<not> is_press e'" by simp
  have x: "\<And>f t. f \<in> set (effects e') \<Longrightarrow> drag_data_x (f t) = drag_data_x t"
    using np
    by (cases e') (auto simp: on_move_def geometry_pos_def destroy_def schedule_next_tick_def)
  have y: "\<And>f t. f \<in> set (effects e') \<Longrightarrow> drag_data_y (f t) = drag_data_y t"
    using np
    by (cases e') (auto simp: on_move_def geometry_pos_def destroy_def schedule_next_tick_def)
  have "drag_data_x (dispatch (RaisedIn e' k x) s) = drag_data_x s"
    by (rule dispatch_raised_frame) (simp_all add: x report_exception_def)
  moreover have "drag_data_y (dispatch (RaisedIn e' k x) s) = drag_data_y s"
    by (rule dispatch_raised_frame) (simp_all add: y report_exception_def)
  ultimately show ?thesis using RaisedIn by simp
qed (auto simp: on_move_def geometry_pos_def destroy_def update_time_def schedule_next_tick_def
       split: list.splits)

lemma mainloop_last_motion:
  "mainloop (es @ [B1Motion w cx cy]) s = Waiting s' \<Longrightarrow> no_press es \<Longrightarrow>
   root_x s' = cx - drag_data_x s \<and> root_y s' = cy - drag_data_y s"
proof (induction es arbitrary: s)
  case Nil
  then show ?case
    by (auto simp: on_move_def geometry_pos_def split: if_splits)
next
  case (Cons e es)
  from Cons.prems(1) have alive: "root_exists s" by (auto split: if_splits)
  from Cons.prems(1) alive have noraise: "\<forall>x. e \<noteq> LoopRaise x" by auto
  with Cons.prems(1) alive
  have step: "mainloop (es @ [B1Motion w cx cy]) (dispatch e s) = Waiting s'"
    by (cases e) auto
  from Cons.prems(2) have np: "\<not> is_press e" and rest: "no_press es" by auto
  from Cons.IH [OF step rest] dispatch_drag_data [OF np, of s] show ?case by simp
qed

text \<open>
  C4. A drag starts with a press of the primary button at screen point \<open>(px, py)\<close>, which
  records the offset \<open>(dx, dy) = (px - x0, py - y0)\<close> from the window's top-left corner
  \<open>(x0, y0)\<close>. Whatever motion and timer events follow, a motion event with the cursor at
  \<open>(cx, cy)\<close> leaves the window's top-left corner at exactly \<open>(cx - dx, cy - dy)\<close>.
\<close>

theorem drag_invariant:
  assumes "mainloop (ButtonPress1 w px py # es @ [B1Motion w' cx cy]) s = Waiting s'"
    and "no_press es"
  shows "root_x s' = cx - (px - root_x s) \<and> root_y s' = cy - (py - root_y s)"
proof -
  from assms(1) have alive: "root_exists s" by (auto split: if_splits)
  with assms(1) have "mainloop (es @ [B1Motion w' cx cy]) (on_start_move px py s) = Waiting s'"
    by simp
  from mainloop_last_motion [OF this assms(2)] show ?thesis
    by (simp add: on_start_move_def)
qed

text \<open>The definitions a concrete run of the widget unfolds to.\<close>

lemmas clock_defs = example_clock_def schedule_next_tick_def geometry_size_pos_def new_root_def
  delay_ms_def next_tick_ns_def interval_ns_eq int_truediv_def on_start_move_def on_move_def
  geometry_pos_def destroy_def update_time_def

text \<open>
  A drag from a window at \<open>(100, 50)\<close> pressed at \<open>(130, 60)\<close>: the offset is \<open>(30, 10)\<close>,
  and after a motion, a tick and a motion to \<open>(200, 20)\<close> the corner is at \<open>(170, 10)\<close>.
\<close>

theorem drag_invariant_witness:
  "no_press [B1Motion Hhmmss 140 70, TimerFired example_reading 1008000123]
   \<and> (\<exists>s'. mainloop (ButtonPress1 Hhmmss 130 60
                        # [B1Motion Hhmmss 140 70, TimerFired example_reading 1008000123]
                        @ [B1Motion Dot 200 20]) example_clock = Waiting s'
            \<and> root_x s' = 170 \<and> root_y s' = 10)"
proof -
  have n: "no_press [B1Motion Hhmmss 140 70, TimerFired example_reading 1008000123]" by simp
  have "\<exists>s'. mainloop (ButtonPress1 Hhmmss 130 60
                        # [B1Motion Hhmmss 140 70, TimerFired example_reading 1008000123]
                        @ [B1Motion Dot 200 20]) example_clock = Waiting s'"
    by (simp add: clock_defs)
  then obtain s' where m: "mainloop (ButtonPress1 Hhmmss 130 60
                        # [B1Motion Hhmmss 140 70, TimerFired example_reading 1008000123]
                        @ [B1Motion Dot 200 20]) example_clock = Waiting s'" ..
  have "root_x example_clock = 100 \<and> root_y example_clock = 50" by (simp add: clock_defs)
  with drag_invariant [OF m n] have "root_x s' = 170 \<and> root_y s' = 10" by simp
  with m n show ?thesis by blast
qed


section \<open>Startup\<close>

lemmas host_defs = example_host_def DesktopClock_init_def font_settings_def load_fonts_def
  set_topmost_def set_overrideredirect_def init_widgets_def time_labels_def
  window_size_and_position_def make_macos_floating_def




lemma init_Inr:
  assumes "DesktopClock_init h = Inr s"
  shows "\<exists>s0. font_settings h (set_overrideredirect h (set_topmost h new_root)) = Inr s0
              \<and> s = init_widgets h s0"
  using assms
  by (auto simp: DesktopClock_init_def split: option.splits sum.splits)




lemma init_widgets_geometry:
  "root_w (init_widgets h s)
     = int (hhmmss_reqwidth h) + int (dot_reqwidth h) + int (mmm_reqwidth h) + 30
   \<and> root_h (init_widgets h s) = max (int (hhmmss_reqheight h)) (int (mmm_reqheight h)) + 20
   \<and> root_x (init_widgets h s) = int (screenwidth h) - root_w (init_widgets h s) - 40
   \<and> root_y (init_widgets h s) = 40"
  by (simp add: init_widgets_def Let_def schedule_next_tick_def make_macos_floating_def
        window_size_and_position_def geometry_size_pos_def time_labels_def
      split: option.splits)




lemma example_init: "\<exists>s. DesktopClock_init example_host = Inr s"
  by (simp add: host_defs)

text \<open>
  C5. With rendered widths \<open>w1, w2, w3\<close> and heights \<open>h1, h3\<close> of the three regions,
  initialisation makes the window \<open>w1 + w2 + w3 + 30\<close> wide and \<open>max h1 h3 + 20\<close> high and
  puts it at horizontal offset \<open>screen_width - width - 40\<close> and vertical offset \<open>40\<close>.
\<close>

theorem startup_layout:
  assumes "DesktopClock_init h = Inr s"
  shows "root_w s = int (hhmmss_reqwidth h) + int (dot_reqwidth h) + int (mmm_reqwidth h) + 30
       \<and> root_h s = max (int (hhmmss_reqheight h)) (int (mmm_reqheight h)) + 20
       \<and> root_x s = int (screenwidth h) - root_w s - 40
       \<and> root_y s = 40"
proof -
  from init_Inr [OF assms] obtain s0 where "s = init_widgets h s0" by blast
  then show ?thesis using init_widgets_geometry [of h s0] by simp
qed

theorem startup_layout_witness:
  "\<exists>s. DesktopClock_init example_host = Inr s
       \<and> root_w s = 230 \<and> root_h s = 64 \<and> root_x s = 1650 \<and> root_y s = 40"
proof -
  from example_init obtain s where i: "DesktopClock_init example_host = Inr s" ..
  from startup_layout [OF i] have "root_w s = 230 \<and> root_h s = 64 \<and> root_x s = 1650 \<and> root_y s = 40"
    by (simp add: example_host_def)
  with i show ?thesis by blast
qed

section \<open>Dismissal\<close>

text \<open>
  C6. A secondary-button event on the window or on any of its three regions, whatever the
  state of the widget (in the middle of a drag or not), destroys the window at once: the
  event loop returns, \<^verbatim>\<open>run\<close> returns and the process exits, and no later event (a further
  motion of the drag included) is handled.
\<close>

theorem right_click_dismisses:
  assumes "root_exists s"
  shows "run (Button3 w # es) s = Returned (destroy s)
       \<and> \<not> root_exists (destroy s)
       \<and> root_x (destroy s) = root_x s \<and> root_y (destroy s) = root_y s
       \<and> exit_status (run (Button3 w # es) s) = Some 0"
proof -
  have d: "\<not> root_exists (destroy s)" by (simp add: destroy_def)
  have "mainloop es (destroy s) = Returned (destroy s)"
    using d by (cases es) simp_all
  then have "mainloop (Button3 w # es) s = Returned (destroy s)"
    using assms by simp
  then have "run (Button3 w # es) s = Returned (destroy s)"
    by (simp add: run_def)
  then show ?thesis using d by (simp add: destroy_def)
qed

theorem right_click_dismisses_witness:
  "root_exists (dispatch (ButtonPress1 Hhmmss 130 60) example_clock)
   \<and> exit_status (run [Button3 Mmm, B1Motion Mmm 500 500]
        (dispatch (ButtonPress1 Hhmmss 130 60) example_clock)) = Some 0
   \<and> root_x (outcome_state (run [Button3 Mmm, B1Motion Mmm 500 500]
        (dispatch (ButtonPress1 Hhmmss 130 60) example_clock))) = 100
   \<and> \<not> root_exists (outcome_state (run [Button3 Mmm, B1Motion Mmm 500 500]
        (dispatch (ButtonPress1 Hhmmss 130 60) example_clock)))"
proof -
  have a: "root_exists (dispatch (ButtonPress1 Hhmmss 130 60) example_clock)"
    by (simp add: clock_defs)
  have x: "root_x (dispatch (ButtonPress1 Hhmmss 130 60) example_clock) = 100"
    by (simp add: clock_defs)
  from right_click_dismisses [OF a, of Mmm "[B1Motion Mmm 500 500]"] a x
  show ?thesis by simp
qed

section \<open>The event loop\<close>

lemma mainloop_Cons:
  "outcome_state (mainloop (e # es) s) = s
   \<or> mainloop (e # es) s = mainloop es (dispatch e s)"
  by (cases e) auto



section \<open>The tick loop\<close>








section \<open>Platform capabilities\<close>






section \<open>Window size\<close>

lemma size_dispatch: "root_w (dispatch e s) = root_w s \<and> root_h (dispatch e s) = root_h s"
proof (cases e)
  case (RaisedIn e' k x)
  have w: "\<And>f t. f \<in> set (effects e') \<Longrightarrow> root_w (f t) = root_w t"
    by (cases e') (auto simp: on_move_def geometry_pos_def destroy_def schedule_next_tick_def)
  have h: "\<And>f t. f \<in> set (effects e') \<Longrightarrow> root_h (f t) = root_h t"
    by (cases e') (auto simp: on_move_def geometry_pos_def destroy_def schedule_next_tick_def)
  have "root_w (dispatch (RaisedIn e' k x) s) = root_w s"
    by (rule dispatch_raised_frame) (simp_all add: w report_exception_def)
  moreover have "root_h (dispatch (RaisedIn e' k x) s) = root_h s"
    by (rule dispatch_raised_frame) (simp_all add: h report_exception_def)
  ultimately show ?thesis using RaisedIn by simp
qed (auto simp: on_start_move_def on_move_def geometry_pos_def destroy_def update_time_def
        schedule_next_tick_def split: list.splits)

lemma size_mainloop:
  "root_w (outcome_state (mainloop es s)) = root_w s
   \<and> root_h (outcome_state (mainloop es s)) = root_h s"
proof (induction es arbitrary: s)
  case Nil
  show ?case by simp
next
  case (Cons e es)
  from mainloop_Cons [of e es s] show ?case
  proof
    assume "outcome_state (mainloop (e # es) s) = s"
    then show ?thesis by simp
  next
    assume "mainloop (e # es) s = mainloop es (dispatch e s)"
    then show ?thesis by (simp only: Cons.IH size_dispatch)
  qed
qed

text \<open>
  C9. The window size set during initialisation is never changed afterwards: the motion
  handler changes the window position and nothing else, the tick handler changes the
  displayed text and the pending timer and nothing else, and after any run of the event
  loop the width and height are what they were.
\<close>

theorem window_size_frame:
  "on_move x_root y_root s = s\<lparr>root_x := x_root - drag_data_x s, root_y := y_root - drag_data_y s\<rparr>
   \<and> update_time now now_ns s =
       s\<lparr>hhmmss_text := hhmmss_text (update_time now now_ns s),
         mmm_text := mmm_text (update_time now now_ns s),
         timers := timers (update_time now now_ns s)\<rparr>
   \<and> root_w (on_move x_root y_root s) = root_w s \<and> root_h (on_move x_root y_root s) = root_h s
   \<and> root_w (update_time now now_ns s) = root_w s \<and> root_h (update_time now now_ns s) = root_h s
   \<and> root_w (outcome_state (run es s)) = root_w s
   \<and> root_h (outcome_state (run es s)) = root_h s"
proof -
  have r: "outcome_state (run es s) = outcome_state (mainloop es s)"
    by (simp add: run_def split: outcome.splits exn.splits)
  show ?thesis
    by (simp add: r size_mainloop on_move_def geometry_pos_def update_time_def
          schedule_next_tick_def)
qed

section \<open>Interruption\<close>




end
